theory Spec2Isabelle
  imports
    Complex_Main
    "HOL-Library.Char_ord"
    "HOL-Library.List_Lexorder"
    "HOL-Library.Multiset"
    "HOL-Library.Sublist"
begin

section \<open>The file-system record store (package fs) and its comparator\<close>

text \<open>
  This theory embeds the record store of package \<^verbatim>\<open>fs\<close>: the comparator
  \<^verbatim>\<open>reflectLess\<close>, the sorter \<^verbatim>\<open>recordSorter\<close>, the cursor \<^verbatim>\<open>memoryRows\<close>, the hook
  dispatcher \<^verbatim>\<open>executeHook\<close> and the operations \<^verbatim>\<open>Get\<close>, \<^verbatim>\<open>Save\<close>, \<^verbatim>\<open>Delete\<close>
  and \<^verbatim>\<open>Query\<close> of \<^verbatim>\<open>fileDatabase\<close>. Go's \<^verbatim>\<open>(value, error)\<close> results are pairs
  with an optional error, the file system and the package-level hook list are an
  explicit \<open>world\<close> that every operation takes and returns, and the routines of Go's
  standard library that the code calls (JSON coding, float formatting, the system
  calls, the shell command) are components of that world or of a \<open>lib\<close> record, so that
  every theorem holds for whatever they return.
\<close>

subsection \<open>Values held by a record field\<close>

text \<open>
  A field value is a Go \<^verbatim>\<open>interface{}\<close>: the nil interface, or a value with a dynamic
  type. \<^verbatim>\<open>reflect.ValueOf(i).Kind()\<close> is the kind of that type. Integers of the signed
  kinds are read by \<^verbatim>\<open>Value.Int()\<close> as an \<^verbatim>\<open>int64\<close>, those of the unsigned kinds by
  \<^verbatim>\<open>Value.Uint()\<close> as a \<^verbatim>\<open>uint64\<close>, floats by \<^verbatim>\<open>Value.Float()\<close> as a \<^verbatim>\<open>float64\<close>; the
  model keeps the number read (an \<open>int\<close>, a \<open>nat\<close>, a \<open>float64\<close>), since the code only
  compares them. Values of the remaining kinds (slices, maps, complex numbers, ...) are
  only ever printed by the comparator, so they are kept as their kind and their printed
  form. The values are of Go's predeclared types, the ones a decoded document holds.
\<close>

datatype intKind = reflect_Int | reflect_Int8 | reflect_Int16 | reflect_Int32 | reflect_Int64

datatype uintKind =
  reflect_Uint | reflect_Uint8 | reflect_Uint16 | reflect_Uint32 | reflect_Uint64 | reflect_Uintptr

datatype floatKind = reflect_Float32 | reflect_Float64

datatype otherKind =
  reflect_Complex64 | reflect_Complex128 | reflect_Array | reflect_Chan | reflect_Func
| reflect_Map | reflect_Ptr | reflect_Slice | reflect_Struct | reflect_UnsafePointer

datatype kind =
  reflect_Bool | IntK intKind | UintK uintKind | FloatK floatKind | reflect_String
| OtherK otherKind

text \<open>
  An IEEE 754 double: a finite number (every finite double is a real number; the
  negative zero is kept apart because it prints differently), an infinity or a NaN.
\<close>

datatype float64 = Fin real | NegZero | PosInf | NegInf | NaN

fun fnum :: "float64 \<Rightarrow> real" where
  "fnum (Fin r) = r"
| "fnum _ = 0"

text \<open>Go's \<^verbatim>\<open><\<close> on \<^verbatim>\<open>float64\<close>: false whenever a NaN is involved, and \<open>-0 = +0\<close>.\<close>

fun float_lt :: "float64 \<Rightarrow> float64 \<Rightarrow> bool" where
  "float_lt NaN _ = False"
| "float_lt _ NaN = False"
| "float_lt PosInf _ = False"
| "float_lt _ NegInf = False"
| "float_lt NegInf _ = True"
| "float_lt _ PosInf = True"
| "float_lt x y = (fnum x < fnum y)"

datatype val =
  NilV
| BoolV bool
| IntV intKind int
| UintV uintKind nat
| FloatV floatKind float64
| StringV string
| OtherV otherKind string

fun Kind :: "val \<Rightarrow> kind option" where
  "Kind NilV = None"
| "Kind (BoolV _) = Some reflect_Bool"
| "Kind (IntV k _) = Some (IntK k)"
| "Kind (UintV k _) = Some (UintK k)"
| "Kind (FloatV k _) = Some (FloatK k)"
| "Kind (StringV _) = Some reflect_String"
| "Kind (OtherV k _) = Some (OtherK k)"

subsection \<open>fmt.Sprint of one value\<close>

definition digit :: "nat \<Rightarrow> char" where
  "digit d = ''0123456789'' ! d"

function showNat :: "nat \<Rightarrow> string" where
  "showNat n = (if n < 10 then [digit n] else showNat (n div 10) @ [digit (n mod 10)])"
  by pat_completeness auto
termination
  by (relation "measure id") auto

definition showInt :: "int \<Rightarrow> string" where
  "showInt i = (if i < 0 then CHR ''-'' # showNat (nat (- i)) else showNat (nat i))"

text \<open>
  \<^verbatim>\<open>fmt.Sprint\<close> with one operand prints it with the verb \<^verbatim>\<open>%v\<close>: a boolean as
  \<^verbatim>\<open>true\<close> or \<^verbatim>\<open>false\<close>, an integer in decimal, a string as it is. The shortest-digits
  formatting of floats is left to the parameter \<open>ff\<close>.
\<close>

fun Sprint :: "(floatKind \<Rightarrow> float64 \<Rightarrow> string) \<Rightarrow> val \<Rightarrow> string" where
  "Sprint ff NilV = ''<nil>''"
| "Sprint ff (BoolV b) = (if b then ''true'' else ''false'')"
| "Sprint ff (IntV k i) = showInt i"
| "Sprint ff (UintV k n) = showNat n"
| "Sprint ff (FloatV k x) = ff k x"
| "Sprint ff (StringV s) = s"
| "Sprint ff (OtherV k s) = s"

subsection \<open>The comparator\<close>

text \<open>
  \<^verbatim>\<open>reflectLess\<close>: the three nil tests, then the test on the kinds, then the switch on
  the common kind. In the switch both values have the same kind, so they are built by
  the same constructor; the \<^verbatim>\<open>default\<close> branch takes the kinds left.
\<close>

definition reflectLess :: "(floatKind \<Rightarrow> float64 \<Rightarrow> string) \<Rightarrow> val \<Rightarrow> val \<Rightarrow> bool" where
  "reflectLess ff i1 i2 =
     (if i1 = NilV \<and> i2 = NilV then True
      else if i1 = NilV then True
      else if i2 = NilV then False
      else if Kind i1 \<noteq> Kind i2 then Sprint ff i1 < Sprint ff i2
      else (case (i1, i2) of
              (BoolV b1, BoolV b2) \<Rightarrow> (if b1 \<and> \<not> b2 then False else True)
            | (IntV _ x, IntV _ y) \<Rightarrow> x < y
            | (UintV _ x, UintV _ y) \<Rightarrow> x < y
            | (FloatV _ x, FloatV _ y) \<Rightarrow> float_lt x y
            | (StringV x, StringV y) \<Rightarrow> x < y
            | _ \<Rightarrow> Sprint ff i1 < Sprint ff i2))"

subsection \<open>Records, sort orders and queries (package oddb)\<close>

text \<open>
  Modelled from the spec: the type \<^verbatim>\<open>oddb.Record\<close> and its method \<^verbatim>\<open>Get\<close>, whose
  declarations are not among the sources embedded here. A Record has a key, a type
  discriminator and a mapping from field names to values; \<open>get(record, fieldPath)\<close>
  returns the value of the field and the absent/null value when the path is unknown.
\<close>

record Record =
  Key :: string
  Type :: string
  Data :: "(string \<times> val) list"

definition Record_Get :: "Record \<Rightarrow> string \<Rightarrow> val" where
  "Record_Get r field = (case map_of (Data r) field of None \<Rightarrow> NilV | Some v \<Rightarrow> v)"

text \<open>\<^verbatim>\<open>type SortOrder int\<close> with \<^verbatim>\<open>Ascending = iota\<close>, \<^verbatim>\<open>Descending\<close>, \<^verbatim>\<open>Asc\<close>, \<^verbatim>\<open>Desc\<close>.\<close>

type_synonym SortOrder = int

definition Ascending :: SortOrder where
  "Ascending = 0"

definition Descending :: SortOrder where
  "Descending = 1"

definition Asc :: SortOrder where
  "Asc = Ascending"

definition Desc :: SortOrder where
  "Desc = Descending"

record Sort =
  KeyPath :: string
  Order :: SortOrder

record Query =
  qType :: string
  Sorts :: "Sort list"

text \<open>
  Go's errors are values: \<^verbatim>\<open>oddb.ErrRecordNotFound\<close>, the error made by \<^verbatim>\<open>errors.New\<close>
  from a message, \<^verbatim>\<open>io.EOF\<close>, the error of a system call on a path that does not
  exist (the one \<^verbatim>\<open>os.IsNotExist\<close> recognises), any other error of the operating system,
  and the errors of package \<^verbatim>\<open>encoding/json\<close>.
\<close>

datatype error =
  ErrRecordNotFound
| errorString string
| EOF
| ErrNotExist
| OSError string
| JSONError string

definition errors_New :: "string \<Rightarrow> error" where
  "errors_New text = errorString text"

definition os_IsNotExist :: "error \<Rightarrow> bool" where
  "os_IsNotExist err = (err = ErrNotExist)"

datatype RecordHookEvent = RecordCreated | RecordUpdated | RecordDeleted

subsection \<open>The sorter\<close>

record recordSorter =
  records :: "Record list"
  by_less :: "Record \<Rightarrow> Record \<Rightarrow> bool"

definition Len :: "recordSorter \<Rightarrow> nat" where
  "Len s = length (records s)"

definition Swap :: "recordSorter \<Rightarrow> nat \<Rightarrow> nat \<Rightarrow> recordSorter" where
  "Swap s i j = s\<lparr>records := (records s)[i := records s ! j, j := records s ! i]\<rparr>"

definition Less :: "recordSorter \<Rightarrow> nat \<Rightarrow> nat \<Rightarrow> bool" where
  "Less s i j = by_less s (records s ! i) (records s ! j)"

text \<open>
  \<^verbatim>\<open>sort.Sort\<close> belongs to Go's standard library. On a short slice every release of
  package \<^verbatim>\<open>sort\<close> runs its \<^verbatim>\<open>insertionSort(data, 0, n)\<close> and nothing else:
  \<^verbatim>\<open>for i := a + 1; i < b; i++ { for j := i; j > a && data.Less(j, j-1); j-- { data.Swap(j, j-1) } }\<close>.
  The model is this routine, which calls \<open>Less\<close> and \<open>Swap\<close> on indices below
  \<open>Len\<close> only. On longer slices the library partitions first; what it returns there is
  fixed by its contract only when \<open>Less\<close> is a strict weak ordering.
\<close>

function insertionSort_j :: "recordSorter \<Rightarrow> nat \<Rightarrow> nat \<Rightarrow> recordSorter" where
  "insertionSort_j data a j =
     (if j > a \<and> Less data j (j - 1) then insertionSort_j (Swap data j (j - 1)) a (j - 1)
      else data)"
  by pat_completeness auto
termination
  by (relation "measure (\<lambda>(data, a, j). j)") auto

function insertionSort_i :: "recordSorter \<Rightarrow> nat \<Rightarrow> nat \<Rightarrow> nat \<Rightarrow> recordSorter" where
  "insertionSort_i data a i b =
     (if i < b then insertionSort_i (insertionSort_j data a i) a (i + 1) b else data)"
  by pat_completeness auto
termination
  by (relation "measure (\<lambda>(data, a, i, b). b - i)") auto

declare insertionSort_j.simps [simp del] insertionSort_i.simps [simp del]

definition insertionSort :: "recordSorter \<Rightarrow> nat \<Rightarrow> nat \<Rightarrow> recordSorter" where
  "insertionSort data a b = insertionSort_i data a (a + 1) b"

definition sort_Sort :: "recordSorter \<Rightarrow> recordSorter" where
  "sort_Sort data = insertionSort data 0 (Len data)"

definition Sort :: "recordSorter \<Rightarrow> recordSorter" where
  "Sort s = sort_Sort s"

text \<open>
  \<^verbatim>\<open>newRecordSorter\<close>: the \<^verbatim>\<open>switch\<close> on the order has the case \<^verbatim>\<open>oddb.Desc\<close> and a
  \<^verbatim>\<open>default\<close> for every other order. \<open>ff\<close> is the float formatting \<open>reflectLess\<close> passes
  to \<open>Sprint\<close>.
\<close>

definition newRecordSorter ::
  "(floatKind \<Rightarrow> float64 \<Rightarrow> string) \<Rightarrow> Record list \<Rightarrow> Sort \<Rightarrow> recordSorter" where
  "newRecordSorter ff recs sortinfo =
     (let field = KeyPath sortinfo;
          by = (if Order sortinfo = Desc
                then (\<lambda>r1 r2. \<not> reflectLess ff (Record_Get r1 field) (Record_Get r2 field))
                else (\<lambda>r1 r2. reflectLess ff (Record_Get r1 field) (Record_Get r2 field)))
      in \<lparr>records = recs, by_less = by\<rparr>)"

subsection \<open>The cursor\<close>

record memoryRows =
  currentRowIndex :: nat
  rows :: "Record list"

definition memoryRows_Close :: "memoryRows \<Rightarrow> error option" where
  "memoryRows_Close rs = None"

definition memoryRows_Next :: "memoryRows \<Rightarrow> (error + Record) \<times> memoryRows" where
  "memoryRows_Next rs =
     (if currentRowIndex rs \<ge> length (rows rs) then (Inl EOF, rs)
      else (Inr (rows rs ! currentRowIndex rs),
            rs\<lparr>currentRowIndex := currentRowIndex rs + 1\<rparr>))"

text \<open>The records a caller reads by calling \<open>Next\<close> until it returns \<^verbatim>\<open>io.EOF\<close>.\<close>

function readAll :: "memoryRows \<Rightarrow> Record list" where
  "readAll rs =
     (case memoryRows_Next rs of
        (Inl err, rs') \<Rightarrow> []
      | (Inr r, rs') \<Rightarrow> r # readAll rs')"
  by pat_completeness auto
termination
  by (relation "measure (\<lambda>rs. length (rows rs) - currentRowIndex rs)")
     (auto simp: memoryRows_Next_def split: if_splits)

declare readAll.simps [simp del]

subsection \<open>The world: file system, shell and hook list\<close>

text \<open>
  Modelled from the spec: \<^verbatim>\<open>oddb.DBHookFunc\<close>, whose declaration is not among the
  sources embedded here; a hook is a listener invoked with the database handle, the
  record and the event kind. The model names a hook function by a number.
\<close>

type_synonym DBHookFunc = nat

record fileDatabase =
  Dir :: string
  DBKey :: string

text \<open>
  The system calls the code makes. Each can fail: \<open>fault\<close> gives the error of a call
  that fails in this world.
\<close>

datatype syscall =
  MkdirAll string | Open string | Read string | Create string | Write string | Remove string

text \<open>
  What \<^verbatim>\<open>cmd.Run()\<close> returns for \<^verbatim>\<open>sh -c\<close>: success, with the lines a
  \<^verbatim>\<open>bufio.Scanner\<close> reads from the captured standard output; an \<^verbatim>\<open>*exec.ExitError\<close> with
  its exit status; or another error (the command could not be started or waited for).
\<close>

datatype cmdResult = RunOk "string list" | ExitError int | RunError error

text \<open>
  \<open>dbHookFuncs\<close> is the package-level variable of that name. \<open>goroutines\<close> records each
  \<^verbatim>\<open>go hookFunc(db, record, event)\<close> statement executed, in the order of execution.
  \<open>sh\<close> is the shell: what a command line returns on given directories and files.
  \<open>shortWrite\<close> is the number of bytes that reach a file when a write to it fails.
\<close>

record world =
  dirs :: "string set"
  files :: "string \<rightharpoonup> string"
  dbHookFuncs :: "DBHookFunc list"
  goroutines :: "(DBHookFunc \<times> fileDatabase \<times> Record \<times> RecordHookEvent) list"
  fault :: "syscall \<Rightarrow> error option"
  shortWrite :: nat
  sh :: "string set \<Rightarrow> (string \<rightharpoonup> string) \<Rightarrow> string \<Rightarrow> cmdResult"

text \<open>
  The routines of \<^verbatim>\<open>encoding/json\<close> on the Record schema and the float formatting of
  \<^verbatim>\<open>fmt\<close>: \<open>jsonEncode\<close> is what \<^verbatim>\<open>Encoder.Encode\<close> marshals (it writes nothing when
  marshalling fails), \<open>jsonDecode\<close> is \<^verbatim>\<open>Decoder.Decode\<close> on the content of a file,
  \<open>jsonUnmarshal\<close> is \<^verbatim>\<open>json.Unmarshal\<close> on one line.
\<close>

record lib =
  fmtFloat :: "floatKind \<Rightarrow> float64 \<Rightarrow> string"
  jsonEncode :: "Record \<Rightarrow> error + string"
  jsonDecode :: "string \<Rightarrow> error + Record"
  jsonUnmarshal :: "string \<Rightarrow> error + Record"

text \<open>\<^verbatim>\<open>filepath.Join\<close> of a directory and a name that needs no cleaning.\<close>

definition filepath_Join :: "string \<Rightarrow> string \<Rightarrow> string" where
  "filepath_Join dir name = dir @ ''/'' @ name"

definition os_MkdirAll :: "string \<Rightarrow> world \<Rightarrow> error option \<times> world" where
  "os_MkdirAll path w =
     (case fault w (MkdirAll path) of
        Some err \<Rightarrow> (Some err, w)
      | None \<Rightarrow> (None, w\<lparr>dirs := insert path (dirs w)\<rparr>))"

definition os_Open :: "string \<Rightarrow> world \<Rightarrow> error + string" where
  "os_Open path w =
     (case fault w (Open path) of
        Some err \<Rightarrow> Inl err
      | None \<Rightarrow> (case files w path of None \<Rightarrow> Inl ErrNotExist | Some content \<Rightarrow> Inr content))"

definition os_Create :: "string \<Rightarrow> world \<Rightarrow> error option \<times> world" where
  "os_Create path w =
     (case fault w (Create path) of
        Some err \<Rightarrow> (Some err, w)
      | None \<Rightarrow> (None, w\<lparr>files := (files w)(path \<mapsto> [])\<rparr>))"

definition os_Remove :: "string \<Rightarrow> world \<Rightarrow> error option \<times> world" where
  "os_Remove path w =
     (case fault w (Remove path) of
        Some err \<Rightarrow> (Some err, w)
      | None \<Rightarrow>
          (case files w path of
             None \<Rightarrow> (Some ErrNotExist, w)
           | Some content \<Rightarrow> (None, w\<lparr>files := (files w)(path := None)\<rparr>)))"

text \<open>\<^verbatim>\<open>json.NewDecoder(file).Decode(record)\<close> on an opened file.\<close>

definition Decoder_Decode :: "lib \<Rightarrow> string \<Rightarrow> string \<Rightarrow> world \<Rightarrow> error + Record" where
  "Decoder_Decode l path content w =
     (case fault w (Read path) of
        Some err \<Rightarrow> Inl err
      | None \<Rightarrow> jsonDecode l content)"

text \<open>\<^verbatim>\<open>json.NewEncoder(file).Encode(record)\<close> on a created file.\<close>

definition Encoder_Encode :: "lib \<Rightarrow> string \<Rightarrow> Record \<Rightarrow> world \<Rightarrow> error option \<times> world" where
  "Encoder_Encode l path record w =
     (case jsonEncode l record of
        Inl err \<Rightarrow> (Some err, w)
      | Inr bytes \<Rightarrow>
          (case fault w (Write path) of
             Some err \<Rightarrow> (Some err, w\<lparr>files := (files w)(path \<mapsto> take (shortWrite w) bytes)\<rparr>)
           | None \<Rightarrow> (None, w\<lparr>files := (files w)(path \<mapsto> bytes)\<rparr>)))"

definition cmd_Run :: "string \<Rightarrow> world \<Rightarrow> cmdResult" where
  "cmd_Run command w = sh w (dirs w) (files w) command"

subsection \<open>Connections and hooks\<close>

definition userDBKey :: string where
  "userDBKey = ''_user''"

definition publicDBKey :: string where
  "publicDBKey = ''_public''"

definition privateDBKey :: string where
  "privateDBKey = ''_private''"

definition newDatabase :: "string \<Rightarrow> string \<Rightarrow> fileDatabase" where
  "newDatabase dir key = \<lparr>Dir = dir, DBKey = key\<rparr>"

text \<open>
  \<^verbatim>\<open>fileConn\<close> without its user and device stores, which the record store does not use.
\<close>

record fileConn =
  connDir :: string
  AppName :: string
  publicDB :: fileDatabase

definition fs_Open :: "string \<Rightarrow> string \<Rightarrow> fileConn" where
  "fs_Open appName dir =
     (let containerPath = filepath_Join dir appName;
          publicDBPath = filepath_Join containerPath publicDBKey
      in \<lparr>connDir = containerPath, AppName = appName,
          publicDB = newDatabase publicDBPath publicDBKey\<rparr>)"

definition PublicDB :: "fileConn \<Rightarrow> fileDatabase" where
  "PublicDB conn = publicDB conn"

definition PrivateDB :: "fileConn \<Rightarrow> string \<Rightarrow> fileDatabase" where
  "PrivateDB conn userKey = newDatabase (filepath_Join (connDir conn) userKey) privateDBKey"

definition AddDBRecordHook :: "fileConn \<Rightarrow> DBHookFunc \<Rightarrow> world \<Rightarrow> world" where
  "AddDBRecordHook conn hookFunc w = w\<lparr>dbHookFuncs := dbHookFuncs w @ [hookFunc]\<rparr>"

text \<open>One \<^verbatim>\<open>go hookFunc(db, record, event)\<close> statement.\<close>

definition go :: "DBHookFunc \<times> fileDatabase \<times> Record \<times> RecordHookEvent \<Rightarrow> world \<Rightarrow> world" where
  "go call w = w\<lparr>goroutines := goroutines w @ [call]\<rparr>"

definition executeHook ::
  "fileDatabase \<Rightarrow> Record \<Rightarrow> RecordHookEvent \<Rightarrow> error option \<Rightarrow> world \<Rightarrow> error option \<times> world" where
  "executeHook db record event err w =
     (case err of
        Some e \<Rightarrow> (Some e, w)
      | None \<Rightarrow> (None, foldl (\<lambda>w' hookFunc. go (hookFunc, db, record, event) w') w (dbHookFuncs w)))"

subsection \<open>Get, Save and Delete\<close>

definition ID :: "fileDatabase \<Rightarrow> string" where
  "ID db = DBKey db"

definition recordPath :: "fileDatabase \<Rightarrow> Record \<Rightarrow> string" where
  "recordPath db record = filepath_Join (Dir db) (Key record)"

text \<open>
  Modelled from the spec: \<^verbatim>\<open>recordEventByPath\<close>, whose declaration is not among the
  sources embedded here. Created or Updated is decided by whether the target key
  existed immediately before the write.
\<close>

definition recordEventByPath :: "string \<Rightarrow> world \<Rightarrow> RecordHookEvent" where
  "recordEventByPath path w =
     (case files w path of None \<Rightarrow> RecordCreated | Some content \<Rightarrow> RecordUpdated)"

text \<open>\<open>Get\<close> fills the record of its caller; the model returns the record decoded.\<close>

definition Get :: "lib \<Rightarrow> fileDatabase \<Rightarrow> string \<Rightarrow> world \<Rightarrow> error + Record" where
  "Get l db key w =
     (case os_Open (filepath_Join (Dir db) key) w of
        Inl err \<Rightarrow> (if os_IsNotExist err then Inl ErrRecordNotFound else Inl err)
      | Inr file \<Rightarrow> Decoder_Decode l (filepath_Join (Dir db) key) file w)"

definition Save :: "lib \<Rightarrow> fileDatabase \<Rightarrow> Record \<Rightarrow> world \<Rightarrow> error option \<times> world" where
  "Save l db record w =
     (let filePath = recordPath db record in
      case os_MkdirAll (Dir db) w of
        (Some err, w1) \<Rightarrow> (Some err, w1)
      | (None, w1) \<Rightarrow>
          (let event = recordEventByPath filePath w1 in
           case os_Create filePath w1 of
             (Some err, w2) \<Rightarrow> (Some err, w2)
           | (None, w2) \<Rightarrow>
               (case Encoder_Encode l filePath record w2 of
                  (err, w3) \<Rightarrow> executeHook db record event err w3)))"

definition Delete :: "lib \<Rightarrow> fileDatabase \<Rightarrow> string \<Rightarrow> world \<Rightarrow> error option \<times> world" where
  "Delete l db key w =
     (case Get l db key w of
        Inl err \<Rightarrow> (Some err, w)
      | Inr record \<Rightarrow>
          (case os_Remove (filepath_Join (Dir db) key) w of
             (err, w1) \<Rightarrow> executeHook db record RecordDeleted err w1))"

subsection \<open>Query\<close>

text \<open>
  The command line \<^verbatim>\<open>fmt.Sprintf(grepFmt, query.Type, filepath.Join(db.Dir, "*"))\<close>,
  with the double quote and the backslash of \<^verbatim>\<open>grepFmt\<close> written as characters.
\<close>

definition dquote :: char where
  "dquote = CHR 0x22"

definition backslash :: char where
  "backslash = CHR 0x5C"

definition grepCommand :: "string \<Rightarrow> string \<Rightarrow> string" where
  "grepCommand type path =
     ''grep -he '' @ [dquote] @ ''{'' @ [backslash, dquote] @ ''_type'' @ [backslash, dquote]
       @ '':'' @ [backslash, dquote] @ type @ [backslash, dquote] @ [dquote] @ '' '' @ path"

text \<open>The loop over \<^verbatim>\<open>scanner.Scan()\<close>: \<open>recs\<close> is the slice \<^verbatim>\<open>records\<close> built so far.\<close>

fun scanRecords :: "lib \<Rightarrow> string list \<Rightarrow> Record list \<Rightarrow> error + Record list" where
  "scanRecords l [] recs = Inr recs"
| "scanRecords l (line # rest) recs =
     (case jsonUnmarshal l line of
        Inl err \<Rightarrow> Inl err
      | Inr record \<Rightarrow> scanRecords l rest (recs @ [record]))"

definition emptyRows :: memoryRows where
  "emptyRows = \<lparr>currentRowIndex = 0, rows = []\<rparr>"

text \<open>
  \<open>Query\<close> returns a pair \<^verbatim>\<open>(*oddb.Rows, error)\<close>, either of which can be nil, and the
  world it leaves.
\<close>

definition Query ::
  "lib \<Rightarrow> fileDatabase \<Rightarrow> Query \<Rightarrow> world \<Rightarrow> (memoryRows option \<times> error option) \<times> world" where
  "Query l db query w =
     (case os_MkdirAll (Dir db) w of
        (Some err, w1) \<Rightarrow> ((Some emptyRows, Some err), w1)
      | (None, w1) \<Rightarrow>
          (let grep = grepCommand (qType query) (filepath_Join (Dir db) ''*'') in
           case cmd_Run grep w1 of
             ExitError status \<Rightarrow>
               (if status = 1 then ((Some emptyRows, None), w1)
                else ((Some emptyRows, None), w1))
           | RunError err \<Rightarrow> ((Some emptyRows, None), w1)
           | RunOk outbuf \<Rightarrow>
               (case scanRecords l outbuf [] of
                  Inl err \<Rightarrow> ((None, Some err), w1)
                | Inr recs \<Rightarrow>
                    (if length (Sorts query) > 0 then
                       (if length (Sorts query) > 1 then
                          ((None, Some (errors_New ''multiple sort order is not supported'')), w1)
                        else
                          ((Some \<lparr>currentRowIndex = 0,
                                  rows = records (Sort (newRecordSorter (fmtFloat l) recs
                                                          (Sorts query ! 0)))\<rparr>, None), w1))
                     else ((Some \<lparr>currentRowIndex = 0, rows = recs\<rparr>, None), w1)))))"

subsection \<open>Sequences of operations\<close>

text \<open>The calls a client can make, and a run of a list of calls from a world.\<close>

datatype call =
  CallAddDBRecordHook fileConn DBHookFunc
| CallGet fileDatabase string
| CallSave fileDatabase Record
| CallDelete fileDatabase string
| CallQuery fileDatabase Query

fun exec :: "lib \<Rightarrow> world \<Rightarrow> call \<Rightarrow> world" where
  "exec l w (CallAddDBRecordHook conn hookFunc) = AddDBRecordHook conn hookFunc w"
| "exec l w (CallGet db key) = w"
| "exec l w (CallSave db record) = snd (Save l db record w)"
| "exec l w (CallDelete db key) = snd (Delete l db key w)"
| "exec l w (CallQuery db query) = snd (Query l db query w)"

definition run :: "lib \<Rightarrow> world \<Rightarrow> call list \<Rightarrow> world" where
  "run l w calls = foldl (exec l) w calls"

subsection \<open>Orderings and the functional reading of insertion sort\<close>

text \<open>
  \<open>notAfter lt a b\<close>: under the comparator \<open>lt\<close>, \<open>b\<close> is not strictly less than \<open>a\<close>
  (either \<open>a\<close> is less than \<open>b\<close>, or \<open>b\<close> is not less than \<open>a\<close>). A list is in
  non-decreasing order when every element is \<open>notAfter\<close> every later one.
\<close>

definition notAfter :: "('a \<Rightarrow> 'a \<Rightarrow> bool) \<Rightarrow> 'a \<Rightarrow> 'a \<Rightarrow> bool" where
  "notAfter lt a b = (lt a b \<or> \<not> lt b a)"



subsection \<open>A store for the examples\<close>

text \<open>
  The examples run on a database of the application \<^verbatim>\<open>app\<close> under \<^verbatim>\<open>/data\<close>, in a
  world without faults. Their coding stands for JSON:
  the document of a record is its key.
\<close>

definition exampleDB :: fileDatabase where
  "exampleDB = PublicDB (fs_Open ''app'' ''/data'')"

definition scoreRecord :: "string \<Rightarrow> val \<Rightarrow> Record" where
  "scoreRecord key v = \<lparr>Key = key, Type = ''x'', Data = [(''score'', v)]\<rparr>"

definition exampleRecords :: "(string \<times> Record) list" where
  "exampleRecords =
     [(''r1'', scoreRecord ''r1'' (IntV reflect_Int 3)),
      (''r2'', scoreRecord ''r2'' (IntV reflect_Int 1)),
      (''r3'', scoreRecord ''r3'' (IntV reflect_Int 2)),
      (''t1'', scoreRecord ''t1'' (IntV reflect_Int 5)),
      (''t2'', scoreRecord ''t2'' (IntV reflect_Int 5)),
      (''m1'', scoreRecord ''m1'' (IntV reflect_Int 9)),
      (''m2'', scoreRecord ''m2'' (IntV reflect_Int 10)),
      (''m3'', scoreRecord ''m3'' (StringV ''1a''))]"

definition exampleDecode :: "string \<Rightarrow> error + Record" where
  "exampleDecode doc =
     (case map_of exampleRecords doc of
        None \<Rightarrow> Inl (JSONError ''invalid character'')
      | Some r \<Rightarrow> Inr r)"

text \<open>Marshalling fails on a record that holds a NaN, as \<^verbatim>\<open>encoding/json\<close> does.\<close>

definition exampleEncode :: "Record \<Rightarrow> error + string" where
  "exampleEncode r =
     (if list_ex (\<lambda>(name, v). v = FloatV reflect_Float64 NaN) (Data r)
      then Inl (JSONError ''json: unsupported value: NaN'')
      else Inr (Key r))"

definition exampleLib :: lib where
  "exampleLib =
     \<lparr>fmtFloat = (\<lambda>k x. []),
      jsonEncode = exampleEncode,
      jsonDecode = exampleDecode,
      jsonUnmarshal = exampleDecode\<rparr>"

text \<open>
  The shell of the examples prints the files of the records \<^verbatim>\<open>r1\<close>, \<^verbatim>\<open>r2\<close>, \<^verbatim>\<open>r3\<close>
  that exist, in the order of their paths, and fails with status 2 when none exists.
\<close>

definition exampleShell :: "string set \<Rightarrow> (string \<rightharpoonup> string) \<Rightarrow> string \<Rightarrow> cmdResult" where
  "exampleShell ds fs command =
     (case List.map_filter fs
             [filepath_Join (Dir exampleDB) ''r1'', filepath_Join (Dir exampleDB) ''r2'',
              filepath_Join (Dir exampleDB) ''r3''] of
        [] \<Rightarrow> ExitError 2
      | outbuf \<Rightarrow> RunOk outbuf)"

definition exampleWorld :: world where
  "exampleWorld =
     \<lparr>dirs = {}, files = Map.empty, dbHookFuncs = [], goroutines = [],
      fault = (\<lambda>call. None), shortWrite = 0, sh = exampleShell\<rparr>"

text \<open>A world where the record \<^verbatim>\<open>r1\<close> is stored and two hooks are registered.\<close>

definition storedWorld :: world where
  "storedWorld =
     exampleWorld\<lparr>dirs := {Dir exampleDB},
                    files := [filepath_Join (Dir exampleDB) ''r1'' \<mapsto> ''r1''],
                    dbHookFuncs := [1, 2]\<rparr>"

definition scoreQuery :: "Sort list \<Rightarrow> Query" where
  "scoreQuery sorts = \<lparr>qType = ''x'', Sorts = sorts\<rparr>"

text \<open>The example world with a shell that returns \<open>result\<close> for every command.\<close>

definition shellWorld :: "cmdResult \<Rightarrow> world" where
  "shellWorld result = exampleWorld\<lparr>sh := (\<lambda>ds fs command. result)\<rparr>"

text \<open>The world \<open>w\<close> where the system call \<open>call\<close> fails with \<open>err\<close>.\<close>

definition failing :: "syscall \<Rightarrow> error \<Rightarrow> world \<Rightarrow> world" where
  "failing call err w = w\<lparr>fault := (fault w)(call := Some err)\<rparr>"

section \<open>Properties\<close>

subsection \<open>The comparator\<close>

text \<open>
  C1. The comparator follows four rules in this order: two absent values compare as
  less; when exactly one value is absent, the absent one is less; values of differing
  kinds compare as their printed forms do, byte-wise; values of one kind compare as
  booleans with false before true and equal booleans less than each other, as integers
  and floats by their numbers, as strings byte-wise.
\<close>

theorem reflectLess_rules:
  "reflectLess ff NilV NilV
   \<and> (b \<noteq> NilV \<longrightarrow> reflectLess ff NilV b)
   \<and> (a \<noteq> NilV \<longrightarrow> \<not> reflectLess ff a NilV)
   \<and> (a \<noteq> NilV \<and> b \<noteq> NilV \<and> Kind a \<noteq> Kind b
        \<longrightarrow> reflectLess ff a b = (Sprint ff a < Sprint ff b))
   \<and> reflectLess ff (BoolV x) (BoolV y) = (x = y \<or> (\<not> x \<and> y))
   \<and> reflectLess ff (IntV k i) (IntV k j) = (i < j)
   \<and> reflectLess ff (UintV u m) (UintV u n) = (m < n)
   \<and> reflectLess ff (FloatV f p) (FloatV f q) = float_lt p q
   \<and> float_lt (Fin r) (Fin s) = (r < s)
   \<and> reflectLess ff (StringV s1) (StringV s2) = (s1 < s2)"
  by (auto simp: reflectLess_def)

theorem reflectLess_rules_witness:
  "reflectLess (\<lambda>k x. []) NilV (BoolV True)
   \<and> \<not> reflectLess (\<lambda>k x. []) (IntV reflect_Int 10) NilV
   \<and> reflectLess (\<lambda>k x. []) (IntV reflect_Int 10) (BoolV True)
   \<and> reflectLess (\<lambda>k x. []) (BoolV True) (BoolV True)
   \<and> \<not> reflectLess (\<lambda>k x. []) (IntV reflect_Int 3) (IntV reflect_Int 2)"
  using reflectLess_rules [of "\<lambda>k x. []" "BoolV True" "IntV reflect_Int 10" True True
      reflect_Int 3 2]
  by (simp add: showInt_def digit_def)

subsection \<open>The scan loop and the hook dispatcher\<close>

lemma scanRecords_failure:
  "\<exists>line\<in>set outbuf. \<exists>err. jsonUnmarshal l line = Inl err \<Longrightarrow>
   \<exists>line\<in>set outbuf. \<exists>err. jsonUnmarshal l line = Inl err \<and> scanRecords l outbuf recs = Inl err"
proof (induction outbuf arbitrary: recs)
  case Nil
  then show ?case by simp
next
  case (Cons line rest)
  show ?case
  proof (cases "jsonUnmarshal l line")
    case (Inl err)
    then show ?thesis by simp
  next
    case (Inr rcd)
    with Cons.prems have "\<exists>x\<in>set rest. \<exists>err. jsonUnmarshal l x = Inl err" by auto
    from Cons.IH [OF this, of "recs @ [rcd]"] Inr show ?thesis by auto
  qed
qed


lemma foldl_go:
  "foldl (\<lambda>w' hookFunc. go (hookFunc, db, rcd, event) w') w hs =
   w\<lparr>goroutines := goroutines w @ map (\<lambda>hookFunc. (hookFunc, db, rcd, event)) hs\<rparr>"
  by (induction hs arbitrary: w) (simp_all add: go_def)

lemma executeHook_None:
  "executeHook db rcd event None w =
   (None, w\<lparr>goroutines := goroutines w @ map (\<lambda>hookFunc. (hookFunc, db, rcd, event)) (dbHookFuncs w)\<rparr>)"
  by (simp add: executeHook_def foldl_go)

lemma executeHook_Some: "executeHook db rcd event (Some e) w = (Some e, w)"
  by (simp add: executeHook_def)

lemmas example_defs =
  exampleDB_def PublicDB_def fs_Open_def newDatabase_def filepath_Join_def publicDBKey_def
  exampleLib_def exampleDecode_def exampleRecords_def scoreRecord_def exampleWorld_def
  scoreQuery_def shellWorld_def exampleEncode_def exampleShell_def storedWorld_def
  failing_def

subsection \<open>The library sort on the sorter\<close>















lemma notAfter_NilV [simp]:
  "notAfter (reflectLess ff) NilV b"
  "notAfter (reflectLess ff) a NilV = (a = NilV)"
  by (auto simp: notAfter_def reflectLess_def)


subsection \<open>Query\<close>

text \<open>
  C5. When a scanned line fails to decode, Query returns the decode error of a line
  and no Rows: the records decoded before it are not returned.
\<close>

theorem Query_decode_failure:
  assumes "os_MkdirAll (Dir db) w = (None, w1)"
    and "cmd_Run (grepCommand (qType query) (filepath_Join (Dir db) ''*'')) w1 = RunOk outbuf"
    and "\<exists>line\<in>set outbuf. \<exists>err. jsonUnmarshal l line = Inl err"
  shows "\<exists>line\<in>set outbuf. \<exists>err. jsonUnmarshal l line = Inl err
           \<and> Query l db query w = ((None, Some err), w1)"
proof -
  from scanRecords_failure [OF assms(3), of "[]"]
  obtain line err where "line \<in> set outbuf" "jsonUnmarshal l line = Inl err"
    "scanRecords l outbuf [] = Inl err" by blast
  with assms(1,2) show ?thesis
    by (auto simp: Query_def Let_def)
qed

theorem Query_decode_failure_witness:
  "\<exists>line\<in>set [''r1'', ''{'', ''r2'']. \<exists>err. jsonUnmarshal exampleLib line = Inl err
     \<and> Query exampleLib exampleDB (scoreQuery []) (shellWorld (RunOk [''r1'', ''{'', ''r2'']))
         = ((None, Some err),
            (shellWorld (RunOk [''r1'', ''{'', ''r2'']))\<lparr>dirs := {Dir exampleDB}\<rparr>)"
  by (rule Query_decode_failure) (simp_all add: example_defs os_MkdirAll_def cmd_Run_def)

text \<open>
  C6. When the directory of the database can be created and the scan does not exit
  with success (it matched nothing, or found nothing to read in a directory just
  created), Query returns a Rows without records and no error, and the directory
  exists afterwards.
\<close>

theorem Query_nothing_found:
  assumes "os_MkdirAll (Dir db) w = (None, w1)"
    and "\<forall>outbuf. cmd_Run (grepCommand (qType query) (filepath_Join (Dir db) ''*'')) w1 \<noteq> RunOk outbuf"
  shows "Query l db query w = ((Some emptyRows, None), w1) \<and> readAll emptyRows = []
         \<and> Dir db \<in> dirs w1"
  using assms 
  by (auto simp: Query_def Let_def emptyRows_def readAll.simps memoryRows_Next_def os_MkdirAll_def
      split: cmdResult.splits option.splits)

theorem Query_nothing_found_witness:
  "Query exampleLib exampleDB (scoreQuery []) (shellWorld (ExitError 1))
     = ((Some emptyRows, None), (shellWorld (ExitError 1))\<lparr>dirs := {Dir exampleDB}\<rparr>)
   \<and> readAll emptyRows = []
   \<and> Dir exampleDB \<in> dirs ((shellWorld (ExitError 1))\<lparr>dirs := {Dir exampleDB}\<rparr>)"
  by (rule Query_nothing_found) (simp_all add: example_defs os_MkdirAll_def cmd_Run_def)

lemma Query_world: "snd (Query l db query w) = snd (os_MkdirAll (Dir db) w)"
  by (simp add: Query_def Let_def split: option.splits sum.splits prod.splits cmdResult.splits)

text \<open>
  C4, as the code has it. For a query with two or more sorts Query never returns
  records. It fails with the error \<^verbatim>\<open>multiple sort order is not supported\<close> once the
  directory has been created, the scan has exited with success and every scanned line
  has been decoded: the test on the sorts comes last. When the scan does not exit with
  success the same query returns an empty Rows and no error, and the directory of the
  database has been created in every case where it can be.
\<close>

theorem Query_multiple_sorts:
  assumes "length (Sorts query) > 1"
  shows "(os_MkdirAll (Dir db) w = (None, w1)
          \<and> cmd_Run (grepCommand (qType query) (filepath_Join (Dir db) ''*'')) w1 = RunOk outbuf
          \<and> scanRecords l outbuf [] = Inr recs
          \<longrightarrow> Query l db query w =
                ((None, Some (errorString ''multiple sort order is not supported'')), w1))
     \<and> (os_MkdirAll (Dir db) w = (None, w1)
          \<and> (\<forall>outbuf. cmd_Run (grepCommand (qType query) (filepath_Join (Dir db) ''*'')) w1 \<noteq> RunOk outbuf)
          \<longrightarrow> Query l db query w = ((Some emptyRows, None), w1))
     \<and> (fst (fst (Query l db query w)) = None \<or> fst (fst (Query l db query w)) = Some emptyRows)
     \<and> snd (Query l db query w) = snd (os_MkdirAll (Dir db) w)"
  using assms
  by (auto simp: Query_def Let_def errors_New_def
      split: option.splits sum.splits prod.splits cmdResult.splits)

theorem Query_multiple_sorts_witness:
  "Query exampleLib exampleDB
     (scoreQuery [\<lparr>KeyPath = ''score'', Order = Asc\<rparr>, \<lparr>KeyPath = ''age'', Order = Desc\<rparr>])
     (shellWorld (RunOk [''r1'', ''r2'']))
   = ((None, Some (errorString ''multiple sort order is not supported'')),
      (shellWorld (RunOk [''r1'', ''r2'']))\<lparr>dirs := {Dir exampleDB}\<rparr>)"
proof -
  let ?q = "scoreQuery [\<lparr>KeyPath = ''score'', Order = Asc\<rparr>, \<lparr>KeyPath = ''age'', Order = Desc\<rparr>]"
  let ?w = "shellWorld (RunOk [''r1'', ''r2''])"
  have len: "length (Sorts ?q) > 1" by (simp add: scoreQuery_def)
  have steps: "os_MkdirAll (Dir exampleDB) ?w = (None, ?w\<lparr>dirs := {Dir exampleDB}\<rparr>)
      \<and> cmd_Run (grepCommand (qType ?q) (filepath_Join (Dir exampleDB) ''*''))
            (?w\<lparr>dirs := {Dir exampleDB}\<rparr>) = RunOk [''r1'', ''r2'']
      \<and> scanRecords exampleLib [''r1'', ''r2''] [] =
            Inr [scoreRecord ''r1'' (IntV reflect_Int 3), scoreRecord ''r2'' (IntV reflect_Int 1)]"
    by (simp add: example_defs os_MkdirAll_def cmd_Run_def)
  from Query_multiple_sorts [OF len, of exampleDB ?w "?w\<lparr>dirs := {Dir exampleDB}\<rparr>"
      "[''r1'', ''r2'']" exampleLib
      "[scoreRecord ''r1'' (IntV reflect_Int 3), scoreRecord ''r2'' (IntV reflect_Int 1)]"] steps
  show ?thesis by blast
qed

text \<open>
  The claim C4 as stated fails: with two sorts and a scan that matches nothing, Query
  returns success, after it has created the directory.
\<close>

theorem Query_multiple_sorts_counterexample:
  "length (Sorts (scoreQuery [\<lparr>KeyPath = ''score'', Order = Asc\<rparr>, \<lparr>KeyPath = ''age'', Order = Desc\<rparr>])) = 2
   \<and> fst (Query exampleLib exampleDB
        (scoreQuery [\<lparr>KeyPath = ''score'', Order = Asc\<rparr>, \<lparr>KeyPath = ''age'', Order = Desc\<rparr>])
        (shellWorld (ExitError 1))) = (Some emptyRows, None)
   \<and> Dir exampleDB \<notin> dirs (shellWorld (ExitError 1))
   \<and> Dir exampleDB \<in> dirs (snd (Query exampleLib exampleDB
        (scoreQuery [\<lparr>KeyPath = ''score'', Order = Asc\<rparr>, \<lparr>KeyPath = ''age'', Order = Desc\<rparr>])
        (shellWorld (ExitError 1))))"
  by (simp add: example_defs Query_def os_MkdirAll_def cmd_Run_def)

subsection \<open>Sorted queries\<close>









subsection \<open>Failures of the storage\<close>

text \<open>
  C7, as the code has it. A failing system call of Get, Save or Delete, and a failing
  creation of the directory in Query, are returned to the caller as the error of the
  operation. A failure of the scan command of Query, whatever its exit status, is
  turned into a success with an empty Rows.
\<close>

theorem IOFailure_surfaces:
  "(fault w (Open (filepath_Join (Dir db) key)) = Some err
      \<longrightarrow> Get l db key w = Inl (if err = ErrNotExist then ErrRecordNotFound else err)
          \<and> Delete l db key w = (Some (if err = ErrNotExist then ErrRecordNotFound else err), w))
   \<and> (fault w (Open (filepath_Join (Dir db) key)) = None
        \<and> files w (filepath_Join (Dir db) key) = Some content
        \<and> fault w (Read (filepath_Join (Dir db) key)) = Some err
      \<longrightarrow> Get l db key w = Inl err \<and> Delete l db key w = (Some err, w))
   \<and> (Get l db key w = Inr stored \<and> fault w (Remove (filepath_Join (Dir db) key)) = Some err
      \<longrightarrow> Delete l db key w = (Some err, w))
   \<and> (fault w (MkdirAll (Dir db)) = Some err
      \<longrightarrow> Save l db rcd w = (Some err, w) \<and> Query l db query w = ((Some emptyRows, Some err), w))
   \<and> (fault w (MkdirAll (Dir db)) = None \<and> fault w (Create (recordPath db rcd)) = Some err
      \<longrightarrow> Save l db rcd w = (Some err, w\<lparr>dirs := insert (Dir db) (dirs w)\<rparr>))
   \<and> (fault w (MkdirAll (Dir db)) = None \<and> fault w (Create (recordPath db rcd)) = None
        \<and> jsonEncode l rcd = Inr bytes \<and> fault w (Write (recordPath db rcd)) = Some err
      \<longrightarrow> fst (Save l db rcd w) = Some err \<and> goroutines (snd (Save l db rcd w)) = goroutines w)
   \<and> (os_MkdirAll (Dir db) w = (None, w1)
        \<and> (cmd_Run (grepCommand (qType query) (filepath_Join (Dir db) ''*'')) w1 = ExitError status
            \<or> cmd_Run (grepCommand (qType query) (filepath_Join (Dir db) ''*'')) w1 = RunError err)
      \<longrightarrow> Query l db query w = ((Some emptyRows, None), w1))"
  by (auto simp: Get_def Delete_def Save_def Query_def Let_def os_Open_def os_IsNotExist_def
      os_Remove_def os_MkdirAll_def os_Create_def Decoder_Decode_def Encoder_Encode_def
      executeHook_Some split: option.splits sum.splits)

theorem IOFailure_surfaces_witness:
  "Get exampleLib exampleDB ''r1''
     (failing (Open (filepath_Join (Dir exampleDB) ''r1'')) (OSError ''permission denied'') storedWorld)
     = Inl (OSError ''permission denied'')
   \<and> Save exampleLib exampleDB (scoreRecord ''r2'' (IntV reflect_Int 1))
       (failing (MkdirAll (Dir exampleDB)) (OSError ''read-only file system'') exampleWorld)
     = (Some (OSError ''read-only file system''),
        failing (MkdirAll (Dir exampleDB)) (OSError ''read-only file system'') exampleWorld)
   \<and> Query exampleLib exampleDB (scoreQuery []) (shellWorld (ExitError 2))
     = ((Some emptyRows, None), (shellWorld (ExitError 2))\<lparr>dirs := {Dir exampleDB}\<rparr>)"
proof -
  let ?wo = "failing (Open (filepath_Join (Dir exampleDB) ''r1'')) (OSError ''permission denied'') storedWorld"
  let ?wm = "failing (MkdirAll (Dir exampleDB)) (OSError ''read-only file system'') exampleWorld"
  let ?ws = "shellWorld (ExitError 2)"
  have o: "fault ?wo (Open (filepath_Join (Dir exampleDB) ''r1'')) = Some (OSError ''permission denied'')"
    by (simp add: failing_def)
  have m: "fault ?wm (MkdirAll (Dir exampleDB)) = Some (OSError ''read-only file system'')"
    by (simp add: failing_def)
  have s: "os_MkdirAll (Dir exampleDB) ?ws = (None, ?ws\<lparr>dirs := {Dir exampleDB}\<rparr>)
      \<and> cmd_Run (grepCommand (qType (scoreQuery [])) (filepath_Join (Dir exampleDB) ''*''))
           (?ws\<lparr>dirs := {Dir exampleDB}\<rparr>) = ExitError 2"
    by (simp add: example_defs os_MkdirAll_def cmd_Run_def)
  from o m s
    IOFailure_surfaces [of ?wo exampleDB "''r1''" "OSError ''permission denied''" exampleLib]
    IOFailure_surfaces [of ?wm exampleDB _ "OSError ''read-only file system''" exampleLib _ _
      "scoreRecord ''r2'' (IntV reflect_Int 1)"]
    IOFailure_surfaces [of ?ws exampleDB _ _ exampleLib _ _ _ "scoreQuery []" _
      "?ws\<lparr>dirs := {Dir exampleDB}\<rparr>" 2]
  show ?thesis by simp
qed

text \<open>
  The claim C7 as stated fails: the shell cannot be started, and Query returns no error.
\<close>

theorem IOFailure_counterexample:
  "Query exampleLib exampleDB (scoreQuery [])
     (shellWorld (RunError (OSError ''fork/exec /bin/sh: permission denied'')))
   = ((Some emptyRows, None),
      (shellWorld (RunError (OSError ''fork/exec /bin/sh: permission denied'')))\<lparr>dirs := {Dir exampleDB}\<rparr>)"
  by (simp add: example_defs Query_def os_MkdirAll_def cmd_Run_def)

subsection \<open>Delete, Save and the hooks\<close>

text \<open>
  C8. Delete on a key without a file fails with \<^verbatim>\<open>ErrRecordNotFound\<close> and leaves the
  world as it was, so it starts no hook. On a key that Get can read, the record comes
  from the stored file; when the removal succeeds the file is gone and every registered
  hook is started with this record and \<^verbatim>\<open>RecordDeleted\<close>; when the removal fails Delete
  returns its error and starts no hook.
\<close>

theorem Delete_hooks:
  "(fault w (Open (filepath_Join (Dir db) key)) = None \<and> files w (filepath_Join (Dir db) key) = None
      \<longrightarrow> Delete l db key w = (Some ErrRecordNotFound, w))
   \<and> (Get l db key w = Inr rcd
      \<longrightarrow> (\<exists>content. files w (filepath_Join (Dir db) key) = Some content
                      \<and> jsonDecode l content = Inr rcd))
   \<and> (Get l db key w = Inr rcd \<and> fault w (Remove (filepath_Join (Dir db) key)) = None
      \<longrightarrow> Delete l db key w =
            (None, w\<lparr>files := (files w)(filepath_Join (Dir db) key := None),
                      goroutines := goroutines w @
                        map (\<lambda>hookFunc. (hookFunc, db, rcd, RecordDeleted)) (dbHookFuncs w)\<rparr>))
   \<and> (Get l db key w = Inr rcd \<and> fault w (Remove (filepath_Join (Dir db) key)) = Some err
      \<longrightarrow> Delete l db key w = (Some err, w))"
  by (auto simp: Delete_def Get_def os_Open_def os_IsNotExist_def os_Remove_def Decoder_Decode_def
      executeHook_None executeHook_Some split: option.splits sum.splits if_splits)

theorem Delete_hooks_witness:
  "Delete exampleLib exampleDB ''r2'' storedWorld = (Some ErrRecordNotFound, storedWorld)
   \<and> Delete exampleLib exampleDB ''r1'' storedWorld =
        (None, storedWorld\<lparr>files := (files storedWorld)(filepath_Join (Dir exampleDB) ''r1'' := None),
                 goroutines := [(1, exampleDB, scoreRecord ''r1'' (IntV reflect_Int 3), RecordDeleted),
                                (2, exampleDB, scoreRecord ''r1'' (IntV reflect_Int 3), RecordDeleted)]\<rparr>)
   \<and> Delete exampleLib exampleDB ''r1''
        (storedWorld\<lparr>fault := (\<lambda>call. if call = Remove (filepath_Join (Dir exampleDB) ''r1'')
                                         then Some (OSError ''permission denied'') else None)\<rparr>) =
        (Some (OSError ''permission denied''),
         storedWorld\<lparr>fault := (\<lambda>call. if call = Remove (filepath_Join (Dir exampleDB) ''r1'')
                                         then Some (OSError ''permission denied'') else None)\<rparr>)"
proof -
  let ?r1 = "scoreRecord ''r1'' (IntV reflect_Int 3)"
  let ?denied = "storedWorld\<lparr>fault := (\<lambda>call. if call = Remove (filepath_Join (Dir exampleDB) ''r1'')
                                         then Some (OSError ''permission denied'') else None)\<rparr>"
  have absent: "fault storedWorld (Open (filepath_Join (Dir exampleDB) ''r2'')) = None
      \<and> files storedWorld (filepath_Join (Dir exampleDB) ''r2'') = None"
    by (simp add: example_defs)
  have stored: "Get exampleLib exampleDB ''r1'' storedWorld = Inr ?r1
      \<and> fault storedWorld (Remove (filepath_Join (Dir exampleDB) ''r1'')) = None"
    by (simp add: example_defs Get_def os_Open_def Decoder_Decode_def)
  have denied: "Get exampleLib exampleDB ''r1'' ?denied = Inr ?r1
      \<and> fault ?denied (Remove (filepath_Join (Dir exampleDB) ''r1'')) = Some (OSError ''permission denied'')"
    by (simp add: example_defs Get_def os_Open_def Decoder_Decode_def)
  have hooks: "goroutines storedWorld = [] \<and> dbHookFuncs storedWorld = [1, 2]"
    by (simp add: example_defs)
  from absent stored denied hooks
    Delete_hooks [of storedWorld exampleDB "''r2''" exampleLib ?r1]
    Delete_hooks [of storedWorld exampleDB "''r1''" exampleLib ?r1]
    Delete_hooks [of ?denied exampleDB "''r1''" exampleLib ?r1 "OSError ''permission denied''"]
  show ?thesis by simp
qed

text \<open>
  C10. When the directory and the file can be created and marshalling the record fails,
  Save returns the marshalling error and starts no hook, and the file of the key is left
  empty, whatever it held before.
\<close>

theorem Save_not_atomic:
  assumes "fault w (MkdirAll (Dir db)) = None"
    and "fault w (Create (recordPath db rcd)) = None"
    and "jsonEncode l rcd = Inl err"
  shows "Save l db rcd w =
          (Some err, w\<lparr>dirs := insert (Dir db) (dirs w),
                        files := (files w)(recordPath db rcd \<mapsto> [])\<rparr>)"
  using assms
  by (simp add: Save_def Let_def os_MkdirAll_def os_Create_def Encoder_Encode_def executeHook_Some)

theorem Save_not_atomic_witness:
  "files storedWorld (recordPath exampleDB (scoreRecord ''r1'' (FloatV reflect_Float64 NaN))) = Some ''r1''
   \<and> Save exampleLib exampleDB (scoreRecord ''r1'' (FloatV reflect_Float64 NaN)) storedWorld =
        (Some (JSONError ''json: unsupported value: NaN''),
         storedWorld\<lparr>files := [filepath_Join (Dir exampleDB) ''r1'' \<mapsto> []]\<rparr>)"
  using Save_not_atomic [of storedWorld exampleDB "scoreRecord ''r1'' (FloatV reflect_Float64 NaN)"
      exampleLib "JSONError ''json: unsupported value: NaN''"]
  by (simp add: example_defs recordPath_def)

lemma executeHook_dbHookFuncs:
  "dbHookFuncs (snd (executeHook db rcd event err w)) = dbHookFuncs w"
  by (cases err) (simp_all add: executeHook_None executeHook_Some)

lemma Save_dbHookFuncs: "dbHookFuncs (snd (Save l db rcd w)) = dbHookFuncs w"
  by (simp add: Save_def Let_def os_MkdirAll_def os_Create_def Encoder_Encode_def
      executeHook_dbHookFuncs split: option.splits sum.splits prod.splits)

lemma Delete_dbHookFuncs: "dbHookFuncs (snd (Delete l db key w)) = dbHookFuncs w"
  by (simp add: Delete_def os_Remove_def executeHook_dbHookFuncs
      split: option.splits sum.splits prod.splits)

lemma Query_dbHookFuncs: "dbHookFuncs (snd (Query l db query w)) = dbHookFuncs w"
  by (simp add: Query_world os_MkdirAll_def split: option.splits)

lemma exec_dbHookFuncs: "prefix (dbHookFuncs w) (dbHookFuncs (exec l w c))"
  by (cases c)
     (simp_all add: AddDBRecordHook_def Save_dbHookFuncs Delete_dbHookFuncs Query_dbHookFuncs)

lemma run_dbHookFuncs: "prefix (dbHookFuncs w) (dbHookFuncs (run l w calls))"
  unfolding run_def
proof (induction calls arbitrary: w)
  case Nil
  show ?case by simp
next
  case (Cons c calls)
  have "prefix (dbHookFuncs w) (dbHookFuncs (exec l w c))" by (rule exec_dbHookFuncs)
  also have "prefix (dbHookFuncs (exec l w c)) (dbHookFuncs (foldl (exec l) (exec l w c) calls))"
    by (rule Cons.IH)
  finally show ?case by simp
qed

lemma Save_goroutines:
  "fst (Save l db rcd w) = None \<Longrightarrow>
   \<exists>event. goroutines (snd (Save l db rcd w)) =
     goroutines w @ map (\<lambda>hookFunc. (hookFunc, db, rcd, event)) (dbHookFuncs w)"
  by (auto simp: Save_def Let_def os_MkdirAll_def os_Create_def Encoder_Encode_def
      executeHook_None executeHook_Some split: option.splits sum.splits prod.splits)

lemma Delete_goroutines:
  "fst (Delete l db key w) = None \<Longrightarrow>
   \<exists>rcd. Get l db key w = Inr rcd \<and> goroutines (snd (Delete l db key w)) =
     goroutines w @ map (\<lambda>hookFunc. (hookFunc, db, rcd, RecordDeleted)) (dbHookFuncs w)"
  by (auto simp: Delete_def os_Remove_def executeHook_None executeHook_Some
      split: option.splits sum.splits prod.splits)

text \<open>
  C9. The hook list is one list of the whole world: registering through any connection
  appends to it, no sequence of calls shortens or reorders what it holds, so a hook once
  registered stays registered, and every successful Save or Delete, on any database
  handle, starts one goroutine per entry of the list with that handle, the record and
  the event.
\<close>

theorem dbHookFuncs_global:
  "dbHookFuncs (AddDBRecordHook conn hookFunc w) = dbHookFuncs w @ [hookFunc]
   \<and> prefix (dbHookFuncs w) (dbHookFuncs (run l w calls))
   \<and> hookFunc \<in> set (dbHookFuncs (run l (AddDBRecordHook conn hookFunc w) calls))
   \<and> (fst (Save l db rcd w) = None \<longrightarrow>
        (\<exists>event. goroutines (snd (Save l db rcd w)) =
           goroutines w @ map (\<lambda>h. (h, db, rcd, event)) (dbHookFuncs w)))
   \<and> (fst (Delete l db key w) = None \<longrightarrow>
        (\<exists>stored. Get l db key w = Inr stored \<and> goroutines (snd (Delete l db key w)) =
           goroutines w @ map (\<lambda>h. (h, db, stored, RecordDeleted)) (dbHookFuncs w)))"
proof -
  have "prefix (dbHookFuncs (AddDBRecordHook conn hookFunc w))
          (dbHookFuncs (run l (AddDBRecordHook conn hookFunc w) calls))"
    by (rule run_dbHookFuncs)
  then have "hookFunc \<in> set (dbHookFuncs (run l (AddDBRecordHook conn hookFunc w) calls))"
    by (auto simp: AddDBRecordHook_def dest: set_mono_prefix)
  then show ?thesis
    using run_dbHookFuncs [of w l calls] Save_goroutines [of l db rcd w]
      Delete_goroutines [of l db key w]
    by (simp add: AddDBRecordHook_def)
qed

theorem dbHookFuncs_global_witness:
  "goroutines (snd (Save exampleLib (PrivateDB (fs_Open ''other'' ''/srv'') ''alice'')
                      (scoreRecord ''r9'' (IntV reflect_Int 4))
                      (AddDBRecordHook (fs_Open ''app'' ''/data'') 7 exampleWorld)))
     = [(7, PrivateDB (fs_Open ''other'' ''/srv'') ''alice'', scoreRecord ''r9'' (IntV reflect_Int 4),
         RecordCreated)]"
  using dbHookFuncs_global [of "fs_Open ''app'' ''/data''" 7 exampleWorld exampleLib "[]"
      "PrivateDB (fs_Open ''other'' ''/srv'') ''alice''" "scoreRecord ''r9'' (IntV reflect_Int 4)"]
  by (simp add: example_defs AddDBRecordHook_def Save_def Let_def os_MkdirAll_def os_Create_def
      Encoder_Encode_def executeHook_None recordPath_def PrivateDB_def privateDBKey_def
      recordEventByPath_def)

end
